theory Spec2Isabelle
  imports Main
begin

section \<open>UniversalConverter32: status codes, module state and environment\<close>

text \<open>
  The three status codes every exported function returns (a \<open>LONG\<close>; only these three
  values occur, so no wrap-around is involved).
\<close>

definition UC_SUCCESS :: int where
  "UC_SUCCESS = 1"

definition UC_FAILURE :: int where
  "UC_FAILURE = 0"

definition UC_ERROR :: int where
  "UC_ERROR = - 1"

text \<open>
  A C string argument \<open>const char*\<close> is a \<open>string option\<close>: \<open>None\<close> is the null pointer,
  \<open>Some cs\<close> the characters before the terminating NUL.

  The file system as the process sees it: a path that \<open>std::ifstream\<close> can open for reading
  is mapped to what stands there. \<open>Regular n\<close>: a file of \<open>n\<close> bytes. \<open>NoSeekEnd\<close>: something
  that opens for reading but not with \<open>std::ios::ate\<close>, because seeking to its end fails
  (a directory, a device). \<open>NoTell\<close>: something that opens with \<open>std::ios::ate\<close> but on which
  \<open>tellg\<close> fails.
\<close>

datatype entry = Regular nat | NoSeekEnd | NoTell

type_synonym filesys = "string \<rightharpoonup> entry"

text \<open>
  The module state. \<open>g_lastError\<close> is the text held in the static buffer
  \<open>char g_lastError[512]\<close>. \<open>popen_calls\<close> is a ghost log of every command line handed to
  \<open>_popen\<close>, oldest first: it is how "the subprocess is not invoked" is stated.
\<close>

record state =
  g_lastError :: string
  files :: filesys
  popen_calls :: "string list"

definition g_version :: string where
  "g_version = ''3.1.0''"

text \<open>
  How a call ends. \<open>Returns v\<close>: the function returns \<open>v\<close>. \<open>Throws e\<close>: a C++ exception
  leaves the function. \<open>InvalidParameter\<close>: a secure CRT function (\<open>strcpy_s\<close>, \<open>sprintf_s\<close>)
  found its destination too small, emptied it and invoked the CRT's invalid parameter
  handler, which by default terminates the process; no status code is returned.
\<close>

datatype cxx_exception = StdException string | OtherException

datatype 'a result = Returns 'a | Throws cxx_exception | InvalidParameter

text \<open>
  What \<open>_popen\<close> and the read loop meet. \<open>NoPipe\<close>: \<open>_popen\<close> returns a null pointer.
  \<open>Pipe stream fs\<close>: the child writes its combined output and exits, leaving the files
  \<open>fs\<close>; \<open>stream\<close> is that output as the text-mode pipe delivers it. \<open>PipeFault e fs\<close>: the child runs, but growing the result string raises \<open>e\<close>
  (\<open>std::bad_alloc\<close>, \<open>std::length_error\<close>); the pipe is still closed by the deleter of the
  \<open>unique_ptr\<close>, which waits for the child, leaving the files \<open>fs\<close>.
  A child that never closes its output is outside the model.
\<close>

datatype pipe = NoPipe | Pipe string filesys | PipeFault cxx_exception filesys

record env =
  module_file_name :: string
  popen :: "string \<Rightarrow> filesys \<Rightarrow> pipe"

section \<open>The secure CRT writes into fixed-size buffers\<close>

text \<open>
  \<open>strcpy_s(dest, size, src)\<close> and \<open>sprintf_s(dest, size, fmt, ...)\<close>, as the Microsoft CRT
  documents them: they store the text and its terminating NUL when both fit in \<open>size\<close>
  bytes (\<open>Some\<close> of the new contents); otherwise they never truncate, but set \<open>dest[0]\<close> to
  NUL and invoke the invalid parameter handler (\<open>None\<close>). \<open>sprintf_s\<close> takes the text
  already formatted.
\<close>

definition strcpy_s :: "nat \<Rightarrow> string \<Rightarrow> string option" where
  "strcpy_s sizeInBytes src = (if length src < sizeInBytes then Some src else None)"

definition sprintf_s :: "nat \<Rightarrow> string \<Rightarrow> string option" where
  "sprintf_s sizeOfBuffer formatted = (if length formatted < sizeOfBuffer then Some formatted else None)"

definition sizeof_g_lastError :: nat where
  "sizeof_g_lastError = 512"

text \<open>
  The recurring pair of statements
  \<^verbatim>\<open>strcpy_s(g_lastError, sizeof(g_lastError), text); return code;\<close>
  (and the same with \<open>sprintf_s\<close>).
\<close>

definition error_return :: "string \<Rightarrow> int \<Rightarrow> state \<Rightarrow> int result \<times> state" where
  "error_return text code s =
     (case sprintf_s sizeof_g_lastError text of
        Some b \<Rightarrow> (Returns code, s\<lparr>g_lastError := b\<rparr>)
      | None \<Rightarrow> (InvalidParameter, s\<lparr>g_lastError := []\<rparr>))"

section \<open>Helpers: running the CLI, file existence, command construction\<close>

text \<open>
  \<open>fgets(buffer, n + 1, pipe)\<close> stores at most \<open>n\<close> characters and stops after a newline
  or at the end of the stream. The pair is the chunk stored and the rest of the stream.
\<close>

fun fgets :: "nat \<Rightarrow> string \<Rightarrow> string \<times> string" where
  "fgets 0 stream = ([], stream)"
| "fgets (Suc n) [] = ([], [])"
| "fgets (Suc n) (c # cs) =
     (if c = CHR 0x0A then ([c], cs)
      else (case fgets n cs of (chunk, rest) \<Rightarrow> (c # chunk, rest)))"

text \<open>\<open>result += buffer\<close> appends the buffer as a C string: up to its first NUL.\<close>

definition c_str :: "string \<Rightarrow> string" where
  "c_str buffer = takeWhile (\<lambda>c. c \<noteq> CHR 0x00) buffer"

text \<open>
  The loop \<^verbatim>\<open>while (fgets(buffer, sizeof(buffer), pipe.get()) != nullptr) result += buffer;\<close>
  with \<open>char buffer[128]\<close>: \<open>fgets\<close> returns null once nothing is left to read.
\<close>

function read_loop :: "string \<Rightarrow> string \<Rightarrow> string" where
  "read_loop result stream =
     (if stream = [] then result
      else (case fgets 127 stream of (buffer, rest) \<Rightarrow> read_loop (result @ c_str buffer) rest))"
  by pat_completeness auto
termination
proof (relation "measure (\<lambda>(result, stream). length stream)")
  show "wf (measure (\<lambda>(result, stream). length stream))"
    by simp
next
  fix result stream buffer rest :: string
  assume ne: "stream \<noteq> []" and br: "(buffer, rest) = fgets 127 stream"
  have no_longer: "length (snd (fgets n cs)) \<le> length cs" for n cs
  proof (induction n cs rule: fgets.induct)
    case (3 n c cs)
    then show ?case by (auto split: prod.splits)
  qed simp_all
  obtain c cs where s: "stream = c # cs"
    using ne by (cases stream) auto
  have "length (snd (fgets 126 cs)) \<le> length cs"
    by (rule no_longer)
  moreover have "fgets 127 (c # cs) =
      (if c = CHR 0x0A then ([c], cs)
       else (case fgets 126 cs of (chunk, rest) \<Rightarrow> (c # chunk, rest)))"
    using fgets.simps(3) [of 126 c cs] by simp
  ultimately have "length (snd (fgets 127 stream)) < length stream"
    using s by (auto split: prod.splits)
  with br show "((result @ c_str buffer, rest), (result, stream))
      \<in> measure (\<lambda>(result, stream). length stream)"
    by (metis in_measure case_prod_conv snd_conv)
qed

declare read_loop.simps [simp del]

definition ExecutePythonCLI :: "env \<Rightarrow> string \<Rightarrow> state \<Rightarrow> string result \<times> state" where
  "ExecutePythonCLI e command s =
     (let s1 = s\<lparr>popen_calls := popen_calls s @ [command]\<rparr> in
      case popen e command (files s) of
        NoPipe \<Rightarrow>
          (case strcpy_s sizeof_g_lastError ''Failed to execute Python CLI'' of
             Some b \<Rightarrow> (Returns [], s1\<lparr>g_lastError := b\<rparr>)
           | None \<Rightarrow> (InvalidParameter, s1\<lparr>g_lastError := []\<rparr>))
      | Pipe stream fs \<Rightarrow> (Returns (read_loop [] stream), s1\<lparr>files := fs\<rparr>)
      | PipeFault x fs \<Rightarrow> (Throws x, s1\<lparr>files := fs\<rparr>))"

text \<open>\<open>std::ifstream file(filename); return file.good();\<close>\<close>

definition FileExists :: "state \<Rightarrow> string \<Rightarrow> bool" where
  "FileExists s filename = (files s filename \<noteq> None)"

text \<open>
  \<open>std::string::find_last_of(chars)\<close>: the last position holding one of \<open>chars\<close>,
  \<open>None\<close> for \<open>npos\<close>.
\<close>

fun find_last_of :: "string \<Rightarrow> string \<Rightarrow> nat option" where
  "find_last_of [] chars = None"
| "find_last_of (c # cs) chars =
     (case find_last_of cs chars of
        Some i \<Rightarrow> Some (Suc i)
      | None \<Rightarrow> if c \<in> set chars then Some 0 else None)"

text \<open>
  The directory of the module file name: everything before the last slash or backslash,
  the whole name when it has neither.
\<close>

definition dllDir :: "env \<Rightarrow> string" where
  "dllDir e =
     (let dllPath = module_file_name e in
      case find_last_of dllPath [CHR 0x5C, CHR ''/''] of
        Some lastSlash \<Rightarrow> take lastSlash dllPath
      | None \<Rightarrow> dllPath)"

text \<open>
  \<open>BuildCLICommand\<close>, one line of the model for each insertion into the stream \<open>cmd\<close>.
  Both paths are non-null here (the only caller has checked them), so they are plain
  strings; the two format hints may be null. \<open>inputFormat\<close> is a parameter that the
  body never reads.
\<close>

definition command_head :: "env \<Rightarrow> string \<Rightarrow> string \<Rightarrow> string" where
  \<open>command_head e inputFile outputFile =
     ''cd /d "'' @ dllDir e @ ''" && python cli.py''
     @ '' "'' @ inputFile @ ''"''
     @ '' -o "'' @ outputFile @ ''"''\<close>

definition format_flag :: "string option \<Rightarrow> string" where
  "format_flag outputFormat =
     (case outputFormat of
        None \<Rightarrow> []
      | Some t \<Rightarrow> if length t > 0 then '' -t '' @ t else [])"

definition BuildCLICommand ::
  "env \<Rightarrow> string \<Rightarrow> string \<Rightarrow> string option \<Rightarrow> string option \<Rightarrow> string" where
  "BuildCLICommand e inputFile outputFile inputFormat outputFormat =
     command_head e inputFile outputFile
     @ format_flag outputFormat
     @ '' --quiet 2>&1''"

section \<open>The conversion entry point\<close>

text \<open>
  \<open>ConvertDocument\<close>. The \<open>try\<close> block is the inner \<open>let\<close>: an exception that leaves
  \<open>ExecutePythonCLI\<close> is caught by the handler for \<open>std::exception\<close> or by the catch-all.
  After the null check both paths are read with \<open>the\<close>.
\<close>

definition ConvertDocument ::
  "env \<Rightarrow> string option \<Rightarrow> string option \<Rightarrow> string option \<Rightarrow> string option \<Rightarrow> state
     \<Rightarrow> int result \<times> state" where
  "ConvertDocument e inputFile outputFile inputFormat outputFormat s0 =
     (let s = s0\<lparr>g_lastError := []\<rparr> in
      if inputFile = None \<or> outputFile = None
      then error_return ''Invalid input parameters'' UC_ERROR s
      else if \<not> FileExists s (the inputFile)
      then error_return (''Input file not found: '' @ the inputFile) UC_ERROR s
      else
        (let command = BuildCLICommand e (the inputFile) (the outputFile) inputFormat outputFormat in
         case ExecutePythonCLI e command s of
           (Returns output, s') \<Rightarrow>
             if FileExists s' (the outputFile) then (Returns UC_SUCCESS, s')
             else if length (g_lastError s') = 0
               then error_return ''Conversion failed - output file not created'' UC_FAILURE s'
               else (Returns UC_FAILURE, s')
         | (Throws (StdException what), s') \<Rightarrow>
             error_return (''Exception: '' @ what) UC_ERROR s'
         | (Throws OtherException, s') \<Rightarrow>
             error_return ''Unknown error occurred'' UC_ERROR s'
         | (InvalidParameter, s') \<Rightarrow> (InvalidParameter, s')))"

section \<open>The connection test\<close>

text \<open>\<open>haystack.find(needle)\<close>: the first position where \<open>needle\<close> starts, \<open>None\<close> for \<open>npos\<close>.\<close>

fun string_find :: "string \<Rightarrow> string \<Rightarrow> nat option" where
  "string_find [] needle = (if needle = [] then Some 0 else None)"
| "string_find (c # cs) needle =
     (if take (length needle) (c # cs) = needle then Some 0
      else map_option Suc (string_find cs needle))"

definition TestConnection :: "env \<Rightarrow> state \<Rightarrow> int result \<times> state" where
  "TestConnection e s0 =
     (let s = s0\<lparr>g_lastError := []\<rparr>;
          command = ''python --version 2>&1'' in
      case ExecutePythonCLI e command s of
        (Returns output, s') \<Rightarrow>
          if string_find output ''Python'' \<noteq> None
          then
            if FileExists s' ''cli.py'' then (Returns UC_SUCCESS, s')
            else error_return ''CLI script not found'' UC_FAILURE s'
          else error_return ''Python not available'' UC_FAILURE s'
      | (Throws x, s') \<Rightarrow> error_return ''Connection test failed'' UC_ERROR s'
      | (InvalidParameter, s') \<Rightarrow> (InvalidParameter, s'))"

section \<open>Accessors\<close>

text \<open>
  Each accessor returns a pointer to a static text and touches nothing: the state comes
  back as it went in.
\<close>

definition GetVersion :: "state \<Rightarrow> string \<times> state" where
  "GetVersion s = (g_version, s)"

definition GetLastError :: "state \<Rightarrow> string \<times> state" where
  "GetLastError s = (g_lastError s, s)"

definition GetSupportedInputFormats :: "state \<Rightarrow> string \<times> state" where
  "GetSupportedInputFormats s = (''pdf,docx,txt,html,rtf,md,markdown'', s)"

definition GetSupportedOutputFormats :: "state \<Rightarrow> string \<times> state" where
  "GetSupportedOutputFormats s = (''txt,md,html,json'', s)"

section \<open>The format-pair convenience functions\<close>

definition ConvertPDFToText ::
  "env \<Rightarrow> string option \<Rightarrow> string option \<Rightarrow> state \<Rightarrow> int result \<times> state" where
  "ConvertPDFToText e inputFile outputFile s =
     ConvertDocument e inputFile outputFile (Some ''pdf'') (Some ''txt'') s"

definition ConvertPDFToMarkdown ::
  "env \<Rightarrow> string option \<Rightarrow> string option \<Rightarrow> state \<Rightarrow> int result \<times> state" where
  "ConvertPDFToMarkdown e inputFile outputFile s =
     ConvertDocument e inputFile outputFile (Some ''pdf'') (Some ''md'') s"

definition ConvertDOCXToText ::
  "env \<Rightarrow> string option \<Rightarrow> string option \<Rightarrow> state \<Rightarrow> int result \<times> state" where
  "ConvertDOCXToText e inputFile outputFile s =
     ConvertDocument e inputFile outputFile (Some ''docx'') (Some ''txt'') s"

definition ConvertDOCXToMarkdown ::
  "env \<Rightarrow> string option \<Rightarrow> string option \<Rightarrow> state \<Rightarrow> int result \<times> state" where
  "ConvertDOCXToMarkdown e inputFile outputFile s =
     ConvertDocument e inputFile outputFile (Some ''docx'') (Some ''md'') s"

definition ConvertMarkdownToHTML ::
  "env \<Rightarrow> string option \<Rightarrow> string option \<Rightarrow> state \<Rightarrow> int result \<times> state" where
  "ConvertMarkdownToHTML e inputFile outputFile s =
     ConvertDocument e inputFile outputFile (Some ''md'') (Some ''html'') s"

definition ConvertHTMLToMarkdown ::
  "env \<Rightarrow> string option \<Rightarrow> string option \<Rightarrow> state \<Rightarrow> int result \<times> state" where
  "ConvertHTMLToMarkdown e inputFile outputFile s =
     ConvertDocument e inputFile outputFile (Some ''html'') (Some ''md'') s"

definition ConvertRTFToText ::
  "env \<Rightarrow> string option \<Rightarrow> string option \<Rightarrow> state \<Rightarrow> int result \<times> state" where
  "ConvertRTFToText e inputFile outputFile s =
     ConvertDocument e inputFile outputFile (Some ''rtf'') (Some ''txt'') s"

definition ConvertRTFToMarkdown ::
  "env \<Rightarrow> string option \<Rightarrow> string option \<Rightarrow> state \<Rightarrow> int result \<times> state" where
  "ConvertRTFToMarkdown e inputFile outputFile s =
     ConvertDocument e inputFile outputFile (Some ''rtf'') (Some ''md'') s"

section \<open>Batch conversion\<close>

definition ConvertBatch ::
  "string option \<Rightarrow> string option \<Rightarrow> string option \<Rightarrow> string option \<Rightarrow> state \<Rightarrow> int result \<times> state" where
  "ConvertBatch inputDir outputDir inputFormat outputFormat s =
     error_return ''Batch conversion not yet implemented'' UC_ERROR s"

section \<open>File information\<close>

text \<open>The decimal digits of a natural number, and with them the conversion \<open>%lld\<close>.\<close>

function decimal :: "nat \<Rightarrow> string" where
  "decimal n =
     (if n < 10 then [char_of (48 + n)]
      else decimal (n div 10) @ [char_of (48 + n mod 10)])"
  by pat_completeness auto
termination
  by (relation "measure (\<lambda>n. n)") auto

declare decimal.simps [simp del]

definition lld :: "int \<Rightarrow> string" where
  "lld i = (if i < 0 then ''-'' @ decimal (nat (- i)) else decimal (nat i))"

text \<open>
  The second open of \<open>GetFileInfo\<close>,
  \<^verbatim>\<open>std::ifstream file(filePath, std::ios::binary | std::ios::ate)\<close>, and the position read
  from it. \<open>None\<close>: \<open>is_open()\<close> is false. \<open>Some n\<close>: the stream is open and \<open>tellg()\<close> gives \<open>n\<close>,
  the size of a regular file, and -1 when \<open>tellg\<close> fails.
\<close>

definition open_ate_tellg :: "state \<Rightarrow> string \<Rightarrow> int option" where
  "open_ate_tellg s filePath =
     (case files s filePath of
        None \<Rightarrow> None
      | Some (Regular n) \<Rightarrow> Some (int n)
      | Some NoSeekEnd \<Rightarrow> None
      | Some NoTell \<Rightarrow> Some (- 1))"

text \<open>
  \<open>GetFileInfo\<close>. \<open>infoBuffer\<close> is the text in the caller's buffer (\<open>None\<close>: a null pointer);
  the second component of the result is that buffer afterwards. The path is opened twice:
  by \<open>FileExists\<close>, and again at its end to read the size. The second open can fail where
  the first succeeded.
\<close>

definition GetFileInfo ::
  "string option \<Rightarrow> string option \<Rightarrow> int \<Rightarrow> state \<Rightarrow> int result \<times> string option \<times> state" where
  "GetFileInfo filePath infoBuffer bufferSize s =
     (if filePath = None \<or> infoBuffer = None \<or> bufferSize \<le> 0
      then (case error_return ''Invalid parameters for GetFileInfo'' UC_ERROR s of
              (r, s') \<Rightarrow> (r, infoBuffer, s'))
      else if \<not> FileExists s (the filePath)
      then (case error_return (''File not found: '' @ the filePath) UC_ERROR s of
              (r, s') \<Rightarrow> (r, infoBuffer, s'))
      else
        (case open_ate_tellg s (the filePath) of
           Some fileSize \<Rightarrow>
             (case sprintf_s (nat bufferSize) (''Size: '' @ lld fileSize @ '' bytes'') of
                Some b \<Rightarrow> (Returns UC_SUCCESS, Some b, s)
              | None \<Rightarrow> (InvalidParameter, Some [], s))
         | None \<Rightarrow>
             (case error_return ''Could not open file for info'' UC_ERROR s of
                (r, s') \<Rightarrow> (r, infoBuffer, s'))))"

section \<open>Concrete scenarios\<close>

text \<open>
  Environments and a state on which the theorems below are run. \<open>demo_env\<close>: the
  interpreter answers the version query, and any other command creates \<open>out.txt\<close>.
  \<open>silent_env\<close>: every child exits without writing or creating anything.
\<close>

definition demo_env :: env where
  "demo_env = \<lparr>module_file_name = ''C:/legacy/host.exe'',
     popen = (\<lambda>command fs.
        if command = ''python --version 2>&1'' then Pipe ''Python 3.11.4\<newline>'' fs
        else Pipe ''done'' (fs(''out.txt'' \<mapsto> Regular 42)))\<rparr>"

definition silent_env :: env where
  "silent_env = \<lparr>module_file_name = ''C:/legacy/host.exe'', popen = (\<lambda>command fs. Pipe [] fs)\<rparr>"

definition demo_state :: state where
  "demo_state = \<lparr>g_lastError = ''Batch conversion not yet implemented'',
     files = [''in.pdf'' \<mapsto> Regular 1000, ''cli.py'' \<mapsto> Regular 2048], popen_calls = []\<rparr>"

text \<open>
  \<open>fault_env\<close>: growing the result string fails with \<open>std::bad_alloc\<close>.
  \<open>late_fault_env\<close>: the same, after the child has created \<open>out.txt\<close>.
  \<open>bare_state\<close>: no last error, and no \<open>cli.py\<close> in the current directory.
\<close>

definition fault_env :: env where
  "fault_env = \<lparr>module_file_name = ''C:/legacy/host.exe'',
     popen = (\<lambda>command fs. PipeFault (StdException ''bad allocation'') fs)\<rparr>"

definition late_fault_env :: env where
  "late_fault_env = \<lparr>module_file_name = ''C:/legacy/host.exe'',
     popen = (\<lambda>command fs.
        PipeFault (StdException ''bad allocation'') (fs(''out.txt'' \<mapsto> Regular 42)))\<rparr>"

definition bare_state :: state where
  "bare_state = \<lparr>g_lastError = [], files = [''in.pdf'' \<mapsto> Regular 1000], popen_calls = []\<rparr>"

section \<open>Facts about the error buffer and the helper that runs the CLI\<close>

lemma error_return_fits:
  "length text < 512 \<Longrightarrow> error_return text code s = (Returns code, s\<lparr>g_lastError := text\<rparr>)"
  by (simp add: error_return_def sprintf_s_def sizeof_g_lastError_def)

lemma error_return_too_long:
  "512 \<le> length text \<Longrightarrow> error_return text code s = (InvalidParameter, s\<lparr>g_lastError := []\<rparr>)"
  by (simp add: error_return_def sprintf_s_def sizeof_g_lastError_def)

lemma ExecutePythonCLI_cases:
  "ExecutePythonCLI e command s =
     (case popen e command (files s) of
        NoPipe \<Rightarrow> (Returns [], s\<lparr>popen_calls := popen_calls s @ [command],
                                  g_lastError := ''Failed to execute Python CLI''\<rparr>)
      | Pipe stream fs \<Rightarrow> (Returns (read_loop [] stream),
                            s\<lparr>popen_calls := popen_calls s @ [command], files := fs\<rparr>)
      | PipeFault x fs \<Rightarrow> (Throws x, s\<lparr>popen_calls := popen_calls s @ [command], files := fs\<rparr>))"
  by (simp add: ExecutePythonCLI_def strcpy_s_def sizeof_g_lastError_def split: pipe.splits)

lemma ExecutePythonCLI_valid: "fst (ExecutePythonCLI e command s) \<noteq> InvalidParameter"
  by (simp add: ExecutePythonCLI_cases split: pipe.splits)

section \<open>Facts about the substring search and the connection test\<close>

lemma take_eq_iff_prefix: "take (length n) h = n \<longleftrightarrow> (\<exists>ss. h = n @ ss)"
  by (metis append_eq_conv_conj)

lemma string_find_iff: "string_find h n \<noteq> None \<longleftrightarrow> (\<exists>ps ss. h = ps @ n @ ss)"
proof (induction h)
  case Nil
  then show ?case by auto
next
  case (Cons c cs)
  show ?case
  proof (cases "take (length n) (c # cs) = n")
    case True
    then have "\<exists>ss. c # cs = [] @ n @ ss"
      by (simp add: take_eq_iff_prefix)
    then have "\<exists>ps ss. c # cs = ps @ n @ ss"
      by blast
    with True show ?thesis by simp
  next
    case False
    have "(\<exists>ps ss. c # cs = ps @ n @ ss) \<longleftrightarrow> (\<exists>ps ss. cs = ps @ n @ ss)"
    proof
      assume "\<exists>ps ss. c # cs = ps @ n @ ss"
      then obtain ps ss where eq: "c # cs = ps @ n @ ss" by blast
      show "\<exists>ps ss. cs = ps @ n @ ss"
      proof (cases ps)
        case Nil
        with eq have "take (length n) (c # cs) = n"
          by (simp add: take_eq_iff_prefix)
        with False show ?thesis by simp
      next
        case (Cons p ps')
        with eq have "cs = ps' @ n @ ss" by simp
        then show ?thesis by blast
      qed
    next
      assume "\<exists>ps ss. cs = ps @ n @ ss"
      then obtain ps ss where "cs = ps @ n @ ss" by blast
      then have "c # cs = (c # ps) @ n @ ss" by simp
      then show "\<exists>ps ss. c # cs = ps @ n @ ss" by blast
    qed
    with False Cons.IH show ?thesis by simp
  qed
qed

lemma string_find_None_iff: "string_find h n = None \<longleftrightarrow> \<not> (\<exists>ps ss. h = ps @ n @ ss)"
  using string_find_iff [of h n] by blast

lemma TestConnection_unfold:
  assumes "ExecutePythonCLI e ''python --version 2>&1'' (s\<lparr>g_lastError := []\<rparr>) = (r, s')"
  shows "TestConnection e s =
     (case r of
        Returns output \<Rightarrow>
          if string_find output ''Python'' \<noteq> None
          then if FileExists s' ''cli.py'' then (Returns 1, s')
               else (Returns 0, s'\<lparr>g_lastError := ''CLI script not found''\<rparr>)
          else (Returns 0, s'\<lparr>g_lastError := ''Python not available''\<rparr>)
      | Throws x \<Rightarrow> (Returns (- 1), s'\<lparr>g_lastError := ''Connection test failed''\<rparr>)
      | InvalidParameter \<Rightarrow> (InvalidParameter, s'))"
  using assms
  by (simp add: TestConnection_def error_return_fits UC_SUCCESS_def UC_FAILURE_def UC_ERROR_def
      split: result.splits)

section \<open>Facts about the argument checks of the conversion\<close>

lemma ConvertDocument_null_path:
  "inputFile = None \<or> outputFile = None \<Longrightarrow>
   ConvertDocument e inputFile outputFile inputFormat outputFormat s
     = (Returns (- 1), s\<lparr>g_lastError := ''Invalid input parameters''\<rparr>)"
  by (simp add: ConvertDocument_def error_return_fits UC_ERROR_def)

lemma ConvertDocument_missing_input:
  "\<not> FileExists s inp \<Longrightarrow> length inp \<le> 489 \<Longrightarrow>
   ConvertDocument e (Some inp) (Some outp) inputFormat outputFormat s
     = (Returns (- 1), s\<lparr>g_lastError := ''Input file not found: '' @ inp\<rparr>)"
  by (simp add: ConvertDocument_def FileExists_def error_return_fits UC_ERROR_def)

section \<open>Facts about the read loop\<close>

text \<open>A stream without NUL characters is captured whole, whatever its line lengths.\<close>

lemma fgets_split: "fgets n stream = (chunk, rest) \<Longrightarrow> chunk @ rest = stream"
  by (induction n stream arbitrary: chunk rest rule: fgets.induct)
    (auto split: if_splits prod.splits)

lemma read_loop_whole:
  "CHR 0x00 \<notin> set stream \<Longrightarrow> read_loop result stream = result @ stream"
proof (induction result stream rule: read_loop.induct)
  case (1 result stream)
  show ?case
  proof (cases "stream = []")
    case True
    then show ?thesis
      by (simp add: read_loop.simps)
  next
    case False
    obtain buffer rest where f: "fgets 127 stream = (buffer, rest)"
      by (cases "fgets 127 stream")
    then have whole: "buffer @ rest = stream"
      by (rule fgets_split)
    with "1.prems" have "CHR 0x00 \<notin> set buffer" and nul_free: "CHR 0x00 \<notin> set rest"
      by auto
    then have same: "c_str buffer = buffer"
      by (auto simp add: c_str_def)
    moreover have "read_loop (result @ c_str buffer) rest = (result @ c_str buffer) @ rest"
      using False f nul_free by (intro "1.IH") simp_all
    ultimately have "read_loop (result @ buffer) rest = result @ stream"
      using whole by simp
    with False f same show ?thesis
      by (subst read_loop.simps) simp
  qed
qed

section \<open>Facts about clearing the last error\<close>

lemma error_return_status:
  "fst (error_return text code s) = Returns c \<Longrightarrow> c = code"
  by (simp add: error_return_def split: option.splits)

lemma ConvertDocument_clears:
  "ConvertDocument e inputFile outputFile inputFormat outputFormat (s\<lparr>g_lastError := old\<rparr>)
     = ConvertDocument e inputFile outputFile inputFormat outputFormat (s\<lparr>g_lastError := []\<rparr>)"
  by (simp add: ConvertDocument_def)

lemma TestConnection_clears:
  "TestConnection e (s\<lparr>g_lastError := old\<rparr>) = TestConnection e (s\<lparr>g_lastError := []\<rparr>)"
  by (simp add: TestConnection_def)

lemma ConvertDocument_success_error:
  assumes "fst (ConvertDocument e inputFile outputFile inputFormat outputFormat s) = Returns 1"
  shows "g_lastError (snd (ConvertDocument e inputFile outputFile inputFormat outputFormat s))
      \<in> {[], ''Failed to execute Python CLI''}"
proof (cases inputFile)
  case None
  with assms show ?thesis
    by (simp add: ConvertDocument_null_path)
next
  case inp: (Some inp)
  show ?thesis
  proof (cases outputFile)
    case None
    with assms show ?thesis
      by (simp add: ConvertDocument_null_path)
  next
    case outp: (Some outp)
    show ?thesis
    proof (cases "FileExists (s\<lparr>g_lastError := []\<rparr>) inp")
      case False
      then have "ConvertDocument e inputFile outputFile inputFormat outputFormat s
          = error_return (''Input file not found: '' @ inp) UC_ERROR (s\<lparr>g_lastError := []\<rparr>)"
        by (simp add: ConvertDocument_def inp outp)
      with assms have "(1::int) = UC_ERROR"
        by (simp add: error_return_status)
      then show ?thesis
        by (simp add: UC_ERROR_def)
    next
      case True
      let ?cmd = "BuildCLICommand e inp outp inputFormat outputFormat"
      show ?thesis
      proof (cases "popen e ?cmd (files s)")
        case NoPipe
        with assms True show ?thesis
          by (simp add: ConvertDocument_def inp outp ExecutePythonCLI_cases UC_FAILURE_def Let_def
              split: if_splits)
      next
        case (Pipe stream fs)
        with assms True show ?thesis
          by (simp add: ConvertDocument_def inp outp ExecutePythonCLI_cases UC_FAILURE_def Let_def
              error_return_fits split: if_splits)
      next
        case (PipeFault x fs)
        with assms True have "\<exists>text s'. fst (error_return text UC_ERROR s') = Returns 1"
          by (cases x) (auto simp add: ConvertDocument_def inp outp ExecutePythonCLI_cases Let_def)
        then have "(1::int) = UC_ERROR"
          by (auto dest: error_return_status)
        then show ?thesis
          by (simp add: UC_ERROR_def)
      qed
    qed
  qed
qed

lemma TestConnection_success_error:
  assumes "fst (TestConnection e s) = Returns 1"
  shows "g_lastError (snd (TestConnection e s)) = []"
proof -
  obtain r s' where probe:
    "ExecutePythonCLI e ''python --version 2>&1'' (s\<lparr>g_lastError := []\<rparr>) = (r, s')"
    by (cases "ExecutePythonCLI e ''python --version 2>&1'' (s\<lparr>g_lastError := []\<rparr>)")
  from assms obtain captured where r: "r = Returns captured"
    and found: "string_find captured ''Python'' \<noteq> None"
    and tc: "TestConnection e s = (Returns 1, s')"
    by (auto simp add: TestConnection_unfold [OF probe] split: result.splits if_splits)
  have "g_lastError s' = []"
  proof (cases "popen e ''python --version 2>&1'' (files s)")
    case NoPipe
    with probe r have "captured = []"
      by (auto simp add: ExecutePythonCLI_cases)
    with found show ?thesis by simp
  next
    case (Pipe stream fs)
    with probe show ?thesis
      by (auto simp add: ExecutePythonCLI_cases)
  next
    case (PipeFault x fs)
    with probe r show ?thesis
      by (auto simp add: ExecutePythonCLI_cases)
  qed
  with tc show ?thesis by simp
qed

section \<open>Facts about file information\<close>

lemma decimal_1000: "decimal 1000 = ''1000''"
  by code_simp

lemma GetFileInfo_existing:
  assumes "files s filePath = Some (Regular n)"
    and "int (length (''Size: '' @ decimal n @ '' bytes'')) < bufferSize"
  shows "GetFileInfo (Some filePath) (Some buf) bufferSize s
      = (Returns 1, Some (''Size: '' @ decimal n @ '' bytes''), s)"
  using assms
  by (simp add: GetFileInfo_def FileExists_def open_ate_tellg_def lld_def sprintf_s_def
      UC_SUCCESS_def)

lemma GetFileInfo_no_seek_end:
  assumes "files s filePath = Some NoSeekEnd" and "0 < bufferSize"
  shows "GetFileInfo (Some filePath) (Some buf) bufferSize s
      = (Returns (- 1), Some buf, s\<lparr>g_lastError := ''Could not open file for info''\<rparr>)"
  using assms
  by (simp add: GetFileInfo_def FileExists_def open_ate_tellg_def error_return_fits UC_ERROR_def)

lemma GetFileInfo_no_tell:
  assumes "files s filePath = Some NoTell" and "14 < bufferSize"
  shows "GetFileInfo (Some filePath) (Some buf) bufferSize s
      = (Returns 1, Some ''Size: -1 bytes'', s)"
proof -
  have "decimal 1 = ''1''"
    by code_simp
  with assms show ?thesis
    by (simp add: GetFileInfo_def FileExists_def open_ate_tellg_def lld_def sprintf_s_def
        UC_SUCCESS_def)
qed

lemma GetFileInfo_invalid:
  "filePath = None \<or> infoBuffer = None \<or> bufferSize \<le> 0 \<Longrightarrow>
   GetFileInfo filePath infoBuffer bufferSize s
     = (Returns (- 1), infoBuffer, s\<lparr>g_lastError := ''Invalid parameters for GetFileInfo''\<rparr>)"
  by (auto simp add: GetFileInfo_def error_return_fits UC_ERROR_def)

lemma GetFileInfo_missing:
  "\<not> FileExists s filePath \<Longrightarrow> length filePath \<le> 495 \<Longrightarrow> 0 < bufferSize \<Longrightarrow>
   GetFileInfo (Some filePath) (Some buf) bufferSize s
     = (Returns (- 1), Some buf, s\<lparr>g_lastError := ''File not found: '' @ filePath\<rparr>)"
  by (simp add: GetFileInfo_def error_return_fits UC_ERROR_def)

lemma long_name_missing: "files bare_state (replicate (490 + k) c) = None"
proof -
  have "replicate (490 + k) c \<noteq> ''in.pdf''"
  proof
    assume "replicate (490 + k) c = ''in.pdf''"
    then have "length (replicate (490 + k) c) = length ''in.pdf''"
      by (rule arg_cong)
    then show False by simp
  qed
  then show ?thesis
    by (simp add: bare_state_def)
qed

section \<open>Properties of the exported functions\<close>

text \<open>
  C9. Whatever its four arguments and the state, \<open>ConvertBatch\<close> returns \<open>UC_ERROR\<close> (-1)
  and leaves the fixed text "Batch conversion not yet implemented" as the last error.
  Nothing else changes: the files are the same and no command reaches \<open>_popen\<close>.
\<close>

theorem ConvertBatch_not_implemented:
  "ConvertBatch inputDir outputDir inputFormat outputFormat s =
     (Returns (- 1), s\<lparr>g_lastError := ''Batch conversion not yet implemented''\<rparr>)
   \<and> files (snd (ConvertBatch inputDir outputDir inputFormat outputFormat s)) = files s
   \<and> popen_calls (snd (ConvertBatch inputDir outputDir inputFormat outputFormat s)) = popen_calls s"
  by (simp add: ConvertBatch_def error_return_fits UC_ERROR_def)

text \<open>
  C4. Two calls that differ only in the input-format hint build the same command string,
  and \<open>ConvertDocument\<close> gives the same status and the same final state for both: the hint
  never reaches the command.
\<close>

theorem inputFormat_never_in_command:
  "BuildCLICommand e inp outp inputFormat1 outputFormat = BuildCLICommand e inp outp inputFormat2 outputFormat
   \<and> ConvertDocument e inputFile outputFile inputFormat1 outputFormat s
     = ConvertDocument e inputFile outputFile inputFormat2 outputFormat s"
proof -
  have same: "BuildCLICommand e i p inputFormat1 outputFormat
      = BuildCLICommand e i p inputFormat2 outputFormat" for i p
    by (simp add: BuildCLICommand_def)
  have "ConvertDocument e inputFile outputFile inputFormat1 outputFormat s
      = ConvertDocument e inputFile outputFile inputFormat2 outputFormat s"
    unfolding ConvertDocument_def same ..
  with same show ?thesis
    by simp
qed

text \<open>
  C5. Each of the eight format-pair functions gives, for every pair of paths (null or not)
  and every state, exactly the status and the final state (last error, files, log of
  commands) of \<open>ConvertDocument\<close> called with the same paths and its fixed pair of hints.
\<close>

theorem convenience_functions_forward:
  "ConvertPDFToText e inputFile outputFile s
     = ConvertDocument e inputFile outputFile (Some ''pdf'') (Some ''txt'') s
   \<and> ConvertPDFToMarkdown e inputFile outputFile s
     = ConvertDocument e inputFile outputFile (Some ''pdf'') (Some ''md'') s
   \<and> ConvertDOCXToText e inputFile outputFile s
     = ConvertDocument e inputFile outputFile (Some ''docx'') (Some ''txt'') s
   \<and> ConvertDOCXToMarkdown e inputFile outputFile s
     = ConvertDocument e inputFile outputFile (Some ''docx'') (Some ''md'') s
   \<and> ConvertMarkdownToHTML e inputFile outputFile s
     = ConvertDocument e inputFile outputFile (Some ''md'') (Some ''html'') s
   \<and> ConvertHTMLToMarkdown e inputFile outputFile s
     = ConvertDocument e inputFile outputFile (Some ''html'') (Some ''md'') s
   \<and> ConvertRTFToText e inputFile outputFile s
     = ConvertDocument e inputFile outputFile (Some ''rtf'') (Some ''txt'') s
   \<and> ConvertRTFToMarkdown e inputFile outputFile s
     = ConvertDocument e inputFile outputFile (Some ''rtf'') (Some ''md'') s"
  by (simp only: ConvertPDFToText_def ConvertPDFToMarkdown_def ConvertDOCXToText_def
      ConvertDOCXToMarkdown_def ConvertMarkdownToHTML_def ConvertHTMLToMarkdown_def
      ConvertRTFToText_def ConvertRTFToMarkdown_def simp_thms)

text \<open>
  C7. The command is the head (change of directory, interpreter and script, quoted input
  path, \<open>-o\<close> and quoted output path), then the target-format flag, then the quiet flag and
  the redirection. The flag \<open>-t\<close> with its token is there exactly when the output-format
  hint is neither null nor empty; with a null or empty hint the head is followed by the
  quiet flag at once.
\<close>

theorem format_flag_iff_outputFormat_nonempty:
  \<open>BuildCLICommand e inp outp inputFormat outputFormat =
     (if outputFormat = None \<or> outputFormat = Some []
      then command_head e inp outp @ '' --quiet 2>&1''
      else command_head e inp outp @ '' -t '' @ the outputFormat @ '' --quiet 2>&1'')
   \<and> ((\<exists>t. t \<noteq> [] \<and> BuildCLICommand e inp outp inputFormat outputFormat
            = command_head e inp outp @ '' -t '' @ t @ '' --quiet 2>&1'')
        \<longleftrightarrow> (outputFormat \<noteq> None \<and> outputFormat \<noteq> Some []))\<close>
proof (cases outputFormat)
  case None
  then show ?thesis
    by (simp add: BuildCLICommand_def format_flag_def)
next
  case (Some t)
  then show ?thesis
    by (cases "t = []") (simp_all add: BuildCLICommand_def format_flag_def)
qed

theorem format_flag_witness:
  \<open>BuildCLICommand demo_env ''in.pdf'' ''out.txt'' (Some ''pdf'') (Some ''txt'')
     = ''cd /d "C:/legacy" && python cli.py "in.pdf" -o "out.txt" -t txt --quiet 2>&1''
   \<and> BuildCLICommand demo_env ''in.pdf'' ''out.txt'' (Some ''pdf'') (Some [])
     = ''cd /d "C:/legacy" && python cli.py "in.pdf" -o "out.txt" --quiet 2>&1''
   \<and> BuildCLICommand demo_env ''in.pdf'' ''out.txt'' (Some ''pdf'') None
     = ''cd /d "C:/legacy" && python cli.py "in.pdf" -o "out.txt" --quiet 2>&1''\<close>
  using format_flag_iff_outputFormat_nonempty [of demo_env "''in.pdf''" "''out.txt''" "Some ''pdf''" "Some ''txt''"]
    format_flag_iff_outputFormat_nonempty [of demo_env "''in.pdf''" "''out.txt''" "Some ''pdf''" "Some []"]
    format_flag_iff_outputFormat_nonempty [of demo_env "''in.pdf''" "''out.txt''" "Some ''pdf''" None]
  by (simp add: command_head_def dllDir_def demo_env_def)

text \<open>
  C3, as the code has it. Both paths non-null, the input file exists, and the helper has
  run the command and returned the text it captured (whatever that text is) without an
  exception, leaving the state \<open>s'\<close>.
  If the output file exists in \<open>s'\<close>, \<open>ConvertDocument\<close> returns \<open>UC_SUCCESS\<close> (1) in state
  \<open>s'\<close>. If it does not, \<open>ConvertDocument\<close> returns \<open>UC_FAILURE\<close> (0) and the last error is
  not empty: it is the generic text "Conversion failed - output file not created" when
  the helper recorded nothing, and what the helper recorded otherwise.
\<close>

theorem ConvertDocument_status_from_output_file:
  assumes input_exists: "FileExists s inp"
    and ran: "ExecutePythonCLI e (BuildCLICommand e inp outp inputFormat outputFormat)
                (s\<lparr>g_lastError := []\<rparr>) = (Returns output, s')"
  shows "(FileExists s' outp \<longrightarrow>
            ConvertDocument e (Some inp) (Some outp) inputFormat outputFormat s = (Returns 1, s'))
       \<and> (\<not> FileExists s' outp \<longrightarrow>
            fst (ConvertDocument e (Some inp) (Some outp) inputFormat outputFormat s) = Returns 0
          \<and> g_lastError (snd (ConvertDocument e (Some inp) (Some outp) inputFormat outputFormat s)) \<noteq> []
          \<and> snd (ConvertDocument e (Some inp) (Some outp) inputFormat outputFormat s) =
              (if g_lastError s' = []
               then s'\<lparr>g_lastError := ''Conversion failed - output file not created''\<rparr>
               else s'))"
proof -
  have ex: "FileExists (s\<lparr>g_lastError := []\<rparr>) inp"
    using input_exists by (simp add: FileExists_def)
  have cd: "ConvertDocument e (Some inp) (Some outp) inputFormat outputFormat s =
      (if FileExists s' outp then (Returns UC_SUCCESS, s')
       else if length (g_lastError s') = 0
         then error_return ''Conversion failed - output file not created'' UC_FAILURE s'
         else (Returns UC_FAILURE, s'))"
    by (simp add: ConvertDocument_def ex ran)
  show ?thesis
    by (simp add: cd error_return_fits UC_SUCCESS_def UC_FAILURE_def)
qed

theorem ConvertDocument_status_witness:
  "FileExists demo_state ''in.pdf''
   \<and> ConvertDocument demo_env (Some ''in.pdf'') (Some ''out.txt'') None (Some ''txt'') demo_state
       = (Returns 1,
          \<lparr>g_lastError = [],
           files = [''in.pdf'' \<mapsto> Regular 1000, ''cli.py'' \<mapsto> Regular 2048, ''out.txt'' \<mapsto> Regular 42],
           popen_calls = [BuildCLICommand demo_env ''in.pdf'' ''out.txt'' None (Some ''txt'')]\<rparr>)
   \<and> ConvertDocument silent_env (Some ''in.pdf'') (Some ''out.txt'') None (Some ''txt'') demo_state
       = (Returns 0,
          \<lparr>g_lastError = ''Conversion failed - output file not created'',
           files = [''in.pdf'' \<mapsto> Regular 1000, ''cli.py'' \<mapsto> Regular 2048],
           popen_calls = [BuildCLICommand silent_env ''in.pdf'' ''out.txt'' None (Some ''txt'')]\<rparr>)"
proof -
  have input_exists: "FileExists demo_state ''in.pdf''"
    by (simp add: FileExists_def demo_state_def)
  have ran1: "ExecutePythonCLI demo_env (BuildCLICommand demo_env ''in.pdf'' ''out.txt'' None (Some ''txt''))
      (demo_state\<lparr>g_lastError := []\<rparr>)
    = (Returns (read_loop [] ''done''),
       \<lparr>g_lastError = [],
        files = [''in.pdf'' \<mapsto> Regular 1000, ''cli.py'' \<mapsto> Regular 2048, ''out.txt'' \<mapsto> Regular 42],
        popen_calls = [BuildCLICommand demo_env ''in.pdf'' ''out.txt'' None (Some ''txt'')]\<rparr>)"
    by (simp add: ExecutePythonCLI_cases demo_env_def demo_state_def BuildCLICommand_def)
  have ran2: "ExecutePythonCLI silent_env (BuildCLICommand silent_env ''in.pdf'' ''out.txt'' None (Some ''txt''))
      (demo_state\<lparr>g_lastError := []\<rparr>)
    = (Returns (read_loop [] []),
       \<lparr>g_lastError = [],
        files = [''in.pdf'' \<mapsto> Regular 1000, ''cli.py'' \<mapsto> Regular 2048],
        popen_calls = [BuildCLICommand silent_env ''in.pdf'' ''out.txt'' None (Some ''txt'')]\<rparr>)"
    by (simp add: ExecutePythonCLI_cases silent_env_def demo_state_def)
  show ?thesis
    using input_exists
      ConvertDocument_status_from_output_file [OF input_exists ran1]
      ConvertDocument_status_from_output_file [OF input_exists ran2]
    by (simp add: FileExists_def prod_eq_iff)
qed

text \<open>
  C3 as stated speaks of every call with non-null paths and an existing input file, and
  fails when an exception is raised while the output of the child is read: the handler
  of the \<open>try\<close> block returns \<open>UC_ERROR\<close> (-1). That is so when the child has created the
  output file (the claim says \<open>UC_SUCCESS\<close>) and when it has not (the claim says
  \<open>UC_FAILURE\<close>).
\<close>

theorem exception_while_reading_counterexample:
  "FileExists demo_state ''in.pdf''
   \<and> ConvertDocument late_fault_env (Some ''in.pdf'') (Some ''out.txt'') None (Some ''txt'') demo_state
       = (Returns (- 1),
          \<lparr>g_lastError = ''Exception: bad allocation'',
           files = [''in.pdf'' \<mapsto> Regular 1000, ''cli.py'' \<mapsto> Regular 2048,
                    ''out.txt'' \<mapsto> Regular 42],
           popen_calls = [BuildCLICommand late_fault_env ''in.pdf'' ''out.txt'' None (Some ''txt'')]\<rparr>)
   \<and> FileExists
         (snd (ConvertDocument late_fault_env (Some ''in.pdf'') (Some ''out.txt'') None (Some ''txt'')
            demo_state)) ''out.txt''
   \<and> ConvertDocument fault_env (Some ''in.pdf'') (Some ''out.txt'') None (Some ''txt'') demo_state
       = (Returns (- 1),
          \<lparr>g_lastError = ''Exception: bad allocation'',
           files = [''in.pdf'' \<mapsto> Regular 1000, ''cli.py'' \<mapsto> Regular 2048],
           popen_calls = [BuildCLICommand fault_env ''in.pdf'' ''out.txt'' None (Some ''txt'')]\<rparr>)
   \<and> \<not> FileExists
         (snd (ConvertDocument fault_env (Some ''in.pdf'') (Some ''out.txt'') None (Some ''txt'')
            demo_state)) ''out.txt''"
  by (simp add: ConvertDocument_def FileExists_def demo_state_def late_fault_env_def fault_env_def
      ExecutePythonCLI_cases BuildCLICommand_def error_return_fits UC_ERROR_def)

text \<open>
  C8. Let the probe \<open>python --version 2>&1\<close>, run with the last error cleared, end as \<open>r\<close>
  in state \<open>s'\<close>. \<open>TestConnection\<close> returns \<open>UC_SUCCESS\<close> (1) if and only if the probe
  returned a text that contains "Python" and \<open>cli.py\<close> exists in \<open>s'\<close>. If the probe
  returned and one of the two checks fails, it returns \<open>UC_FAILURE\<close> (0) and records
  "CLI script not found" or "Python not available". If the probe raised an exception,
  it returns \<open>UC_ERROR\<close> (-1) and records "Connection test failed". No exception ever
  leaves \<open>TestConnection\<close>, and none of its messages overflows the error buffer.
\<close>

theorem TestConnection_status:
  assumes probe: "ExecutePythonCLI e ''python --version 2>&1'' (s\<lparr>g_lastError := []\<rparr>) = (r, s')"
  shows "(fst (TestConnection e s) = Returns 1 \<longleftrightarrow>
            (\<exists>output. r = Returns output \<and> (\<exists>ps ss. output = ps @ ''Python'' @ ss)
               \<and> FileExists s' ''cli.py''))
       \<and> (\<forall>output. r = Returns output \<longrightarrow>
            \<not> ((\<exists>ps ss. output = ps @ ''Python'' @ ss) \<and> FileExists s' ''cli.py'') \<longrightarrow>
            TestConnection e s =
              (Returns 0,
               s'\<lparr>g_lastError := (if \<exists>ps ss. output = ps @ ''Python'' @ ss
                                    then ''CLI script not found'' else ''Python not available'')\<rparr>))
       \<and> (\<forall>x. r = Throws x \<longrightarrow>
            TestConnection e s = (Returns (- 1), s'\<lparr>g_lastError := ''Connection test failed''\<rparr>))
       \<and> (\<forall>x. fst (TestConnection e s) \<noteq> Throws x)
       \<and> fst (TestConnection e s) \<noteq> InvalidParameter"
proof -
  have valid: "r \<noteq> InvalidParameter"
    using ExecutePythonCLI_valid [of e "''python --version 2>&1''" "s\<lparr>g_lastError := []\<rparr>"] probe
    by simp
  show ?thesis
  proof (cases r)
    case (Returns captured)
    then show ?thesis
      by (simp add: TestConnection_unfold [OF probe] string_find_None_iff)
  next
    case (Throws x)
    then show ?thesis
      by (simp add: TestConnection_unfold [OF probe])
  next
    case InvalidParameter
    with valid show ?thesis by simp
  qed
qed

theorem TestConnection_status_witness:
  "fst (TestConnection demo_env demo_state) = Returns 1
   \<and> TestConnection demo_env bare_state
       = (Returns 0, \<lparr>g_lastError = ''CLI script not found'', files = [''in.pdf'' \<mapsto> Regular 1000],
                      popen_calls = [''python --version 2>&1'']\<rparr>)
   \<and> TestConnection silent_env demo_state
       = (Returns 0, \<lparr>g_lastError = ''Python not available'',
                      files = [''in.pdf'' \<mapsto> Regular 1000, ''cli.py'' \<mapsto> Regular 2048],
                      popen_calls = [''python --version 2>&1'']\<rparr>)
   \<and> TestConnection fault_env demo_state
       = (Returns (- 1), \<lparr>g_lastError = ''Connection test failed'',
                          files = [''in.pdf'' \<mapsto> Regular 1000, ''cli.py'' \<mapsto> Regular 2048],
                          popen_calls = [''python --version 2>&1'']\<rparr>)"
proof -
  have captured: "read_loop [] ''Python 3.11.4\<newline>'' = ''Python 3.11.4\<newline>''"
    by code_simp
  have drained: "read_loop [] [] = []"
    by (simp add: read_loop.simps)
  have found: "\<exists>ps ss. ''Python 3.11.4\<newline>'' = ps @ ''Python'' @ ss"
    by (rule string_find_iff [THEN iffD1]) simp
  have not_found: "\<not> (\<exists>ps ss. [] = ps @ ''Python'' @ ss)"
    by simp
  have probe1: "ExecutePythonCLI demo_env ''python --version 2>&1'' (demo_state\<lparr>g_lastError := []\<rparr>)
      = (Returns ''Python 3.11.4\<newline>'',
         \<lparr>g_lastError = [], files = [''in.pdf'' \<mapsto> Regular 1000, ''cli.py'' \<mapsto> Regular 2048],
          popen_calls = [''python --version 2>&1'']\<rparr>)"
    by (simp add: ExecutePythonCLI_cases demo_env_def demo_state_def captured)
  have probe2: "ExecutePythonCLI demo_env ''python --version 2>&1'' (bare_state\<lparr>g_lastError := []\<rparr>)
      = (Returns ''Python 3.11.4\<newline>'',
         \<lparr>g_lastError = [], files = [''in.pdf'' \<mapsto> Regular 1000],
          popen_calls = [''python --version 2>&1'']\<rparr>)"
    by (simp add: ExecutePythonCLI_cases demo_env_def bare_state_def captured)
  have probe3: "ExecutePythonCLI silent_env ''python --version 2>&1'' (demo_state\<lparr>g_lastError := []\<rparr>)
      = (Returns [],
         \<lparr>g_lastError = [], files = [''in.pdf'' \<mapsto> Regular 1000, ''cli.py'' \<mapsto> Regular 2048],
          popen_calls = [''python --version 2>&1'']\<rparr>)"
    by (simp add: ExecutePythonCLI_cases silent_env_def demo_state_def drained)
  have probe4: "ExecutePythonCLI fault_env ''python --version 2>&1'' (demo_state\<lparr>g_lastError := []\<rparr>)
      = (Throws (StdException ''bad allocation''),
         \<lparr>g_lastError = [], files = [''in.pdf'' \<mapsto> Regular 1000, ''cli.py'' \<mapsto> Regular 2048],
          popen_calls = [''python --version 2>&1'']\<rparr>)"
    by (simp add: ExecutePythonCLI_cases fault_env_def demo_state_def)
  have a: "fst (TestConnection demo_env demo_state) = Returns 1"
    using TestConnection_status [OF probe1] found by (simp add: FileExists_def)
  have b: "TestConnection demo_env bare_state
       = (Returns 0, \<lparr>g_lastError = ''CLI script not found'', files = [''in.pdf'' \<mapsto> Regular 1000],
                      popen_calls = [''python --version 2>&1'']\<rparr>)"
    using TestConnection_status [OF probe2] found by (simp add: FileExists_def)
  have c: "TestConnection silent_env demo_state
       = (Returns 0, \<lparr>g_lastError = ''Python not available'',
                      files = [''in.pdf'' \<mapsto> Regular 1000, ''cli.py'' \<mapsto> Regular 2048],
                      popen_calls = [''python --version 2>&1'']\<rparr>)"
    using TestConnection_status [OF probe3] not_found by (simp add: FileExists_def)
  have d: "TestConnection fault_env demo_state
       = (Returns (- 1), \<lparr>g_lastError = ''Connection test failed'',
                          files = [''in.pdf'' \<mapsto> Regular 1000, ''cli.py'' \<mapsto> Regular 2048],
                          popen_calls = [''python --version 2>&1'']\<rparr>)"
    using TestConnection_status [OF probe4] by simp
  from a b c d show ?thesis
    by (simp only: simp_thms)
qed

text \<open>
  C1, as the code has it. When the input path or the output path is null, or the input
  path is the empty string (the empty path names no file), \<open>ConvertDocument\<close> returns
  \<open>UC_ERROR\<close> (-1); no command reaches \<open>_popen\<close> and the files are untouched. The
  last error is "Invalid input parameters" for a null path and "Input file not found: "
  for the empty input path.
\<close>

theorem ConvertDocument_rejects_null_and_empty_input:
  assumes "inputFile = None \<or> outputFile = None \<or> inputFile = Some []"
    and "files s [] = None"
  shows "ConvertDocument e inputFile outputFile inputFormat outputFormat s
      = (Returns (- 1),
         s\<lparr>g_lastError := (if inputFile = None \<or> outputFile = None
                            then ''Invalid input parameters'' else ''Input file not found: '')\<rparr>)
    \<and> popen_calls (snd (ConvertDocument e inputFile outputFile inputFormat outputFormat s))
        = popen_calls s
    \<and> files (snd (ConvertDocument e inputFile outputFile inputFormat outputFormat s)) = files s"
proof (cases "inputFile = None \<or> outputFile = None")
  case True
  then show ?thesis
    by (simp add: ConvertDocument_null_path)
next
  case False
  with assms(1) obtain outp where io: "inputFile = Some []" "outputFile = Some outp"
    by auto
  have "\<not> FileExists s []"
    using assms(2) by (simp add: FileExists_def)
  then have "ConvertDocument e (Some []) (Some outp) inputFormat outputFormat s
      = (Returns (- 1), s\<lparr>g_lastError := ''Input file not found: '' @ []\<rparr>)"
    by (rule ConvertDocument_missing_input) simp
  with io show ?thesis
    by simp
qed

theorem ConvertDocument_rejects_witness:
  "ConvertDocument demo_env None (Some ''out.txt'') None None bare_state
     = (Returns (- 1), bare_state\<lparr>g_lastError := ''Invalid input parameters''\<rparr>)
   \<and> ConvertDocument demo_env (Some ''in.pdf'') None None None bare_state
     = (Returns (- 1), bare_state\<lparr>g_lastError := ''Invalid input parameters''\<rparr>)
   \<and> ConvertDocument demo_env (Some []) (Some ''out.txt'') None None bare_state
     = (Returns (- 1), bare_state\<lparr>g_lastError := ''Input file not found: ''\<rparr>)"
proof -
  have no_empty_name: "files bare_state [] = None"
    by (simp add: bare_state_def)
  show ?thesis
    using ConvertDocument_rejects_null_and_empty_input
        [of None "Some ''out.txt''" bare_state demo_env None None, OF _ no_empty_name]
      ConvertDocument_rejects_null_and_empty_input
        [of "Some ''in.pdf''" None bare_state demo_env None None, OF _ no_empty_name]
      ConvertDocument_rejects_null_and_empty_input
        [of "Some []" "Some ''out.txt''" bare_state demo_env None None, OF _ no_empty_name]
    by simp
qed

text \<open>
  C1 as stated also covers an empty output path, and fails there: with an existing input
  file and the output path \<open>""\<close> the command is built and handed to \<open>_popen\<close>, and the
  status is \<open>UC_FAILURE\<close> (0), not \<open>UC_ERROR\<close>.
\<close>

theorem empty_output_path_counterexample:
  \<open>FileExists bare_state ''in.pdf''
   \<and> ConvertDocument silent_env (Some ''in.pdf'') (Some []) None None bare_state
     = (Returns 0,
        \<lparr>g_lastError = ''Conversion failed - output file not created'',
         files = [''in.pdf'' \<mapsto> Regular 1000],
         popen_calls = [''cd /d "C:/legacy" && python cli.py "in.pdf" -o "" --quiet 2>&1'']\<rparr>)\<close>
  by (simp add: ConvertDocument_def FileExists_def bare_state_def silent_env_def
      ExecutePythonCLI_cases BuildCLICommand_def command_head_def dllDir_def format_flag_def
      error_return_fits UC_FAILURE_def)

text \<open>
  C2, as the code has it. \<open>ConvertDocument\<close>, the eight format-pair functions and
  \<open>TestConnection\<close> clear the last error first: what they return and the state they leave
  are the same whatever message an earlier call left. When one of them returns
  \<open>UC_SUCCESS\<close> the last error is empty; the one exception is a conversion whose pipe
  could not be opened while the output file was there already, which leaves the message
  of that same call. \<open>ConvertBatch\<close> overwrites the last error with its fixed message.
  The four accessors leave the state, and so the last error, as it was.
\<close>

theorem lastError_cleared_by_conversion_and_probe:
  "ConvertDocument e inputFile outputFile inputFormat outputFormat (s\<lparr>g_lastError := old\<rparr>)
     = ConvertDocument e inputFile outputFile inputFormat outputFormat (s\<lparr>g_lastError := []\<rparr>)
   \<and> TestConnection e (s\<lparr>g_lastError := old\<rparr>) = TestConnection e (s\<lparr>g_lastError := []\<rparr>)
   \<and> (\<forall>convert \<in> set [ConvertPDFToText, ConvertPDFToMarkdown, ConvertDOCXToText,
          ConvertDOCXToMarkdown, ConvertMarkdownToHTML, ConvertHTMLToMarkdown,
          ConvertRTFToText, ConvertRTFToMarkdown].
        convert e inputFile outputFile (s\<lparr>g_lastError := old\<rparr>)
          = convert e inputFile outputFile (s\<lparr>g_lastError := []\<rparr>)
        \<and> (fst (convert e inputFile outputFile s) = Returns 1 \<longrightarrow>
             g_lastError (snd (convert e inputFile outputFile s))
               \<in> {[], ''Failed to execute Python CLI''}))
   \<and> (fst (ConvertDocument e inputFile outputFile inputFormat outputFormat s) = Returns 1 \<longrightarrow>
        g_lastError (snd (ConvertDocument e inputFile outputFile inputFormat outputFormat s))
          \<in> {[], ''Failed to execute Python CLI''})
   \<and> (fst (TestConnection e s) = Returns 1 \<longrightarrow> g_lastError (snd (TestConnection e s)) = [])
   \<and> g_lastError (snd (ConvertBatch inputDir outputDir inputFormat outputFormat s))
       = ''Batch conversion not yet implemented''
   \<and> snd (GetVersion s) = s \<and> snd (GetLastError s) = s
   \<and> snd (GetSupportedInputFormats s) = s \<and> snd (GetSupportedOutputFormats s) = s"
proof -
  have wrappers: "\<forall>convert \<in> set [ConvertPDFToText, ConvertPDFToMarkdown, ConvertDOCXToText,
          ConvertDOCXToMarkdown, ConvertMarkdownToHTML, ConvertHTMLToMarkdown,
          ConvertRTFToText, ConvertRTFToMarkdown].
        convert e inputFile outputFile (s\<lparr>g_lastError := old\<rparr>)
          = convert e inputFile outputFile (s\<lparr>g_lastError := []\<rparr>)
        \<and> (fst (convert e inputFile outputFile s) = Returns 1 \<longrightarrow>
             g_lastError (snd (convert e inputFile outputFile s))
               \<in> {[], ''Failed to execute Python CLI''})"
    using ConvertDocument_clears ConvertDocument_success_error
    by (simp add: ConvertPDFToText_def ConvertPDFToMarkdown_def ConvertDOCXToText_def
        ConvertDOCXToMarkdown_def ConvertMarkdownToHTML_def ConvertHTMLToMarkdown_def
        ConvertRTFToText_def ConvertRTFToMarkdown_def)
  have batch: "g_lastError (snd (ConvertBatch inputDir outputDir inputFormat outputFormat s))
       = ''Batch conversion not yet implemented''"
    by (simp add: ConvertBatch_def error_return_fits)
  have accessors: "snd (GetVersion s) = s \<and> snd (GetLastError s) = s
      \<and> snd (GetSupportedInputFormats s) = s \<and> snd (GetSupportedOutputFormats s) = s"
    by (simp add: GetVersion_def GetLastError_def GetSupportedInputFormats_def
        GetSupportedOutputFormats_def)
  show ?thesis
    using wrappers batch accessors ConvertDocument_clears TestConnection_clears
      ConvertDocument_success_error TestConnection_success_error
    by blast
qed

theorem lastError_cleared_witness:
  "g_lastError demo_state = ''Batch conversion not yet implemented''
   \<and> fst (ConvertDocument demo_env (Some ''in.pdf'') (Some ''out.txt'') None (Some ''txt'') demo_state)
       = Returns 1
   \<and> g_lastError (snd (ConvertDocument demo_env (Some ''in.pdf'') (Some ''out.txt'') None
         (Some ''txt'') demo_state)) \<in> {[], ''Failed to execute Python CLI''}
   \<and> fst (ConvertPDFToText demo_env (Some ''in.pdf'') (Some ''out.txt'') demo_state) = Returns 1
   \<and> g_lastError (snd (ConvertPDFToText demo_env (Some ''in.pdf'') (Some ''out.txt'') demo_state))
       \<in> {[], ''Failed to execute Python CLI''}
   \<and> fst (TestConnection demo_env demo_state) = Returns 1
   \<and> g_lastError (snd (TestConnection demo_env demo_state)) = []"
proof -
  have stale: "g_lastError demo_state = ''Batch conversion not yet implemented''"
    by (simp add: demo_state_def)
  have converted: "fst (ConvertDocument demo_env (Some ''in.pdf'') (Some ''out.txt'') None
      (Some ''txt'') demo_state) = Returns 1"
    by (simp add: ConvertDocument_def FileExists_def demo_state_def demo_env_def
        ExecutePythonCLI_cases BuildCLICommand_def UC_SUCCESS_def)
  have converted_pdf: "fst (ConvertPDFToText demo_env (Some ''in.pdf'') (Some ''out.txt'') demo_state)
      = Returns 1"
    by (simp add: ConvertPDFToText_def ConvertDocument_def FileExists_def demo_state_def
        demo_env_def ExecutePythonCLI_cases BuildCLICommand_def UC_SUCCESS_def)
  have captured: "read_loop [] ''Python 3.11.4\<newline>'' = ''Python 3.11.4\<newline>''"
    by code_simp
  have connected: "fst (TestConnection demo_env demo_state) = Returns 1"
    by (simp add: TestConnection_def FileExists_def demo_state_def demo_env_def
        ExecutePythonCLI_cases captured UC_SUCCESS_def)
  show ?thesis
    using stale converted converted_pdf connected
      lastError_cleared_by_conversion_and_probe [where e = demo_env and s = demo_state
        and inputFile = "Some ''in.pdf''" and outputFile = "Some ''out.txt''"
        and inputFormat = None and outputFormat = "Some ''txt''"]
    by simp
qed

text \<open>
  C2 as stated speaks of every public entry point, and fails on those that do not clear:
  after \<open>ConvertBatch\<close> has recorded its message, \<open>GetVersion\<close> leaves it in place and
  \<open>GetLastError\<close> returns it; and \<open>GetFileInfo\<close> on an existing file of 1000 bytes
  returns \<open>UC_SUCCESS\<close> with that earlier message still in the last error.
\<close>

theorem stale_error_counterexample:
  "fst (GetLastError (snd (GetVersion (snd (ConvertBatch None None None None bare_state)))))
     = ''Batch conversion not yet implemented''
   \<and> GetFileInfo (Some ''in.pdf'') (Some []) 64 (snd (ConvertBatch None None None None bare_state))
     = (Returns 1, Some ''Size: 1000 bytes'',
        \<lparr>g_lastError = ''Batch conversion not yet implemented'',
         files = [''in.pdf'' \<mapsto> Regular 1000], popen_calls = []\<rparr>)"
  by (simp add: ConvertBatch_def error_return_fits GetVersion_def GetLastError_def bare_state_def
      GetFileInfo_def FileExists_def open_ate_tellg_def lld_def sprintf_s_def decimal_1000
      UC_SUCCESS_def)

text \<open>
  C6 at a failing input. The file does not exist and its path has 496 characters, so the
  message "File not found: " followed by the path needs 513 bytes with its NUL. \<open>sprintf_s\<close>
  does not store it in the 512 bytes of \<open>g_lastError\<close>: it empties the buffer and invokes the
  invalid parameter handler. \<open>GetFileInfo\<close> does not return \<open>UC_ERROR\<close>. (For paths of at
  most 495 characters \<open>GetFileInfo_missing\<close> gives \<open>UC_ERROR\<close>; \<open>GetFileInfo_invalid\<close> and
  \<open>GetFileInfo_existing\<close> cover the other parts of the claim, for a regular file.)
\<close>

theorem GetFileInfo_long_missing_path:
  "\<not> FileExists bare_state (replicate 496 CHR ''a'')
   \<and> GetFileInfo (Some (replicate 496 CHR ''a'')) (Some []) 64 bare_state
     = (InvalidParameter, Some [], bare_state\<lparr>g_lastError := []\<rparr>)"
  using long_name_missing [of 6 "CHR ''a''"]
  by (simp add: GetFileInfo_def FileExists_def error_return_too_long)

text \<open>
  C10 at a failing input. The input file does not exist and its path has 490 characters,
  so the message "Input file not found: " followed by the path needs 513 bytes with its
  NUL. \<open>sprintf_s\<close> empties \<open>g_lastError\<close> and invokes the invalid parameter handler:
  \<open>ConvertDocument\<close> does not return \<open>UC_ERROR\<close>, and the last error does not name the path.
  (For paths of at most 489 characters \<open>ConvertDocument_missing_input\<close> gives what the
  claim says.)
\<close>

theorem ConvertDocument_long_missing_path:
  "\<not> FileExists bare_state (replicate 490 CHR ''a'')
   \<and> ConvertDocument demo_env (Some (replicate 490 CHR ''a'')) (Some ''out.txt'') None None bare_state
     = (InvalidParameter, bare_state\<lparr>g_lastError := []\<rparr>)"
  using long_name_missing [of 0 "CHR ''a''"]
  by (simp add: ConvertDocument_def FileExists_def error_return_too_long)

end
